theory Spec2Isabelle
  imports Complex_Main
begin

section \<open>The process supervisor of BaselineVSLAMLab\<close>

text \<open>
  This theory embeds three methods of \<^verbatim>\<open>Baselines/BaselineVSLAMLab.py\<close>:
  \<^verbatim>\<open>kill_process\<close>, \<^verbatim>\<open>monitor_memory\<close> and \<^verbatim>\<open>execute\<close>.

  Everything the methods obtain from the operating system or from a library is an input of
  the model: the outcome of each \<^verbatim>\<open>os.killpg(os.getpgid(pid), sig)\<close>, of
  \<^verbatim>\<open>process.wait\<close>, of \<^verbatim>\<open>open\<close> and \<^verbatim>\<open>subprocess.Popen\<close>, of
  \<^verbatim>\<open>process.communicate\<close>, the readings of \<^verbatim>\<open>psutil\<close> and \<^verbatim>\<open>pynvml\<close>, and the file
  system after the run. The iterations of the monitor's \<^verbatim>\<open>while process.poll() is None\<close>
  loop are a finite list of ticks: one element for each iteration in which the process
  was still alive, the end of the list being the poll that found it exited.

  Byte counts are natural numbers, as \<^verbatim>\<open>psutil\<close> returns them. The quotients and differences
  the code computes on Python floats are computed here on rationals, without rounding.
\<close>

subsection \<open>Exceptions, paths, text\<close>

datatype exn = ProcessLookupError | PermissionError | FileNotFoundError | OSError

type_synonym path = "string list"

text \<open>The decimal digit of a number below ten.\<close>

definition digit_char :: "nat \<Rightarrow> char" where
  "digit_char n = ''0123456789'' ! n"

text \<open>\<^verbatim>\<open>str(n)\<close> of a non-negative integer.\<close>

function str_nat :: "nat \<Rightarrow> string" where
  "str_nat n = (if n < 10 then [digit_char n] else str_nat (n div 10) @ [digit_char (n mod 10)])"
  by pat_completeness auto
termination
  by (relation "measure id") auto

declare str_nat.simps [simp del]

text \<open>\<^verbatim>\<open>s.zfill(w)\<close> of a string without a sign.\<close>

definition zfill :: "nat \<Rightarrow> string \<Rightarrow> string" where
  "zfill w s = replicate (w - length s) CHR ''0'' @ s"

text \<open>\<^verbatim>\<open>TRAJECTORY_FILE_NAME\<close> of \<^verbatim>\<open>path_constants.py\<close>.\<close>

definition TRAJECTORY_FILE_NAME :: string where
  "TRAJECTORY_FILE_NAME = ''KeyFrameTrajectory''"

definition log_file_path :: "path \<Rightarrow> nat \<Rightarrow> path" where
  "log_file_path exp_folder exp_it =
     exp_folder @ [''system_output_'' @ zfill 5 (str_nat exp_it) @ ''.txt'']"

definition artifact_path :: "path \<Rightarrow> nat \<Rightarrow> path" where
  "artifact_path exp_folder exp_it =
     exp_folder @ [zfill 5 (str_nat exp_it) @ ''_'' @ TRAJECTORY_FILE_NAME @ ''.csv'']"

subsection \<open>Effects\<close>

datatype signal = SIGTERM | SIGKILL

text \<open>
  The effects of a thread, in program order. \<open>PrintMsg msg flag\<close> is
  \<^verbatim>\<open>print_msg(SCRIPT_LABEL, msg, flag)\<close>.
\<close>

datatype event =
    OpenLog path
  | PrintLogFile path
  | Popen string
  | ThreadStart
  | Communicate nat
  | PrintMsg string string
  | Killpg signal
  | WaitProc nat
  | ThreadJoin
  | QueueGet string
  | CloseLog
  | PathExists path
  | ReadFlag
  | StatsGet string
  | NvmlShutdown

subsection \<open>kill\_process\<close>

text \<open>
  What the operating system answers during one call: \<open>sigterm_result\<close> and
  \<open>sigkill_result\<close> are the outcomes of \<^verbatim>\<open>os.killpg(os.getpgid(process.pid), sig)\<close>
  (\<open>None\<close>: delivered; \<open>Some e\<close>: the lookup or the delivery raised \<open>e\<close>), and
  \<open>wait_result\<close> tells whether \<^verbatim>\<open>process.wait(timeout=5)\<close> returned (\<open>True\<close>) or raised
  \<^verbatim>\<open>subprocess.TimeoutExpired\<close> (\<open>False\<close>).
\<close>

record kill_env =
  sigterm_result :: "exn option"
  wait_result :: bool
  sigkill_result :: "exn option"

text \<open>The effects of the call and the exception it raised, if any.\<close>

definition kill_process :: "kill_env \<Rightarrow> event list \<times> exn option" where
  "kill_process k =
     (case sigterm_result k of
        Some e \<Rightarrow> ([], Some e)
      | None \<Rightarrow>
          (if wait_result k
           then ([Killpg SIGTERM, WaitProc 5, PrintMsg ''Process killed.'' ''error''], None)
           else (case sigkill_result k of
                   Some e \<Rightarrow> ([Killpg SIGTERM, WaitProc 5], Some e)
                 | None \<Rightarrow>
                     ([Killpg SIGTERM, WaitProc 5, Killpg SIGKILL,
                       PrintMsg ''Process killed.'' ''error''], None))))"

subsection \<open>monitor\_memory\<close>

text \<open>The cells shared by the two threads.\<close>

record cells =
  success_flag :: bool
  comment_queue :: "string list"
  memory_stats :: "string \<rightharpoonup> rat"

text \<open>The readings taken before the loop.\<close>

record snapshot =
  nvml_handle :: bool
  swap_used0 :: nat
  swap_total :: nat
  ram_used0 :: nat
  ram_total :: nat
  gpu_used0 :: "nat option"

datatype psread = PsRaise | PsOk nat nat

text \<open>
  One iteration: the \<^verbatim>\<open>psutil\<close> readings (\<open>PsOk ram.used swap.used\<close>, or one of the three
  exceptions the loop catches), the \<^verbatim>\<open>pynvml\<close> reading (\<open>None\<close>: it raised), and what
  the operating system answers if the iteration calls \<^verbatim>\<open>kill_process\<close>.
\<close>

record tick =
  mem :: psread
  gpu_used :: "nat option"
  kill :: kill_env

definition GB :: "nat \<Rightarrow> rat" where
  "GB n = of_nat n / (1024 ^ 3)"

definition MAX_SWAP_PERC :: rat where
  "MAX_SWAP_PERC = 80 / 100"

definition MAX_RAM_PERC :: rat where
  "MAX_RAM_PERC = 95 / 100"

definition ram_perc :: "snapshot \<Rightarrow> nat \<Rightarrow> rat" where
  "ram_perc s ru = (if GB (ram_total s) > 0 then GB ru / GB (ram_total s) else 0)"

definition swap_perc :: "snapshot \<Rightarrow> nat \<Rightarrow> rat" where
  "swap_perc s su = (if GB (swap_total s) > 0 then GB su / GB (swap_total s) else 0)"

definition gpu_0 :: "snapshot \<Rightarrow> rat" where
  "gpu_0 s =
     (if nvml_handle s then (case gpu_used0 s of Some b \<Rightarrow> GB b | None \<Rightarrow> 0) else 0)"

text \<open>
  The two diagnostics; \<open>fmt\<close> is the \<^verbatim>\<open>:.1f\<close> formatting of a float, and \<^verbatim>\<open>:.0%\<close> of
  the two constants is written out.
\<close>

definition ram_msg :: "(rat \<Rightarrow> string) \<Rightarrow> snapshot \<Rightarrow> nat \<Rightarrow> string" where
  "ram_msg fmt s ru =
     ''RAM threshold exceeded: '' @ fmt (GB ru) @ ''/'' @ fmt (GB (ram_total s)) @ '' GB (> 95%)''"

definition swap_msg :: "(rat \<Rightarrow> string) \<Rightarrow> snapshot \<Rightarrow> nat \<Rightarrow> string" where
  "swap_msg fmt s su =
     ''Swap threshold exceeded: '' @ fmt (GB su) @ ''/'' @ fmt (GB (swap_total s)) @ '' GB (> 80%)''"

text \<open>The state of the monitor thread: the shared cells, its locals, its effects.\<close>

record mon_state = cells +
  ram_inc_max :: rat
  swap_inc_max :: rat
  gpu_inc_max :: rat
  mon_trace :: "event list"

datatype step = Continue mon_state | Break mon_state | Raise mon_state exn

fun state_of :: "step \<Rightarrow> mon_state" where
  "state_of (Continue st) = st"
| "state_of (Break st) = st"
| "state_of (Raise st e) = st"

fun raised :: "step \<Rightarrow> exn option" where
  "raised (Raise st e) = Some e"
| "raised _ = None"

fun is_continue :: "step \<Rightarrow> bool" where
  "is_continue (Continue st) = True"
| "is_continue _ = False"

text \<open>The breach branch, the same for RAM and swap up to the message.\<close>

definition on_breach :: "string \<Rightarrow> kill_env \<Rightarrow> mon_state \<Rightarrow> step" where
  "on_breach msg k st =
     (let st1 = st\<lparr>mon_trace := mon_trace st @ [PrintMsg msg ''error'']\<rparr>;
          st2 = st1\<lparr>success_flag := False\<rparr>;
          st3 = st2\<lparr>comment_queue := comment_queue st2 @ [msg @ ''. Process killed.'']\<rparr>;
          st4 = st3\<lparr>mon_trace := mon_trace st3 @ fst (kill_process k)\<rparr>
      in case snd (kill_process k) of
           Some e \<Rightarrow> Raise st4 e
         | None \<Rightarrow> Break st4)"

text \<open>The body of the loop, entered when \<^verbatim>\<open>process.poll()\<close> is \<^verbatim>\<open>None\<close>.\<close>

definition monitor_tick :: "(rat \<Rightarrow> string) \<Rightarrow> snapshot \<Rightarrow> tick \<Rightarrow> mon_state \<Rightarrow> step" where
  "monitor_tick fmt s t st =
     (case mem t of
        PsRaise \<Rightarrow> Break st
      | PsOk ru su \<Rightarrow>
          (if ram_perc s ru > MAX_RAM_PERC then on_breach (ram_msg fmt s ru) (kill t) st
           else if swap_perc s su > MAX_SWAP_PERC then on_breach (swap_msg fmt s su) (kill t) st
           else
             (let st1 = st\<lparr>ram_inc_max := max (ram_inc_max st) (GB ru - GB (ram_used0 s))\<rparr>;
                  st2 = st1\<lparr>swap_inc_max := max (swap_inc_max st1) (GB su - GB (swap_used0 s))\<rparr>;
                  st3 = (if nvml_handle s
                         then (case gpu_used t of
                                 Some g \<Rightarrow> st2\<lparr>gpu_inc_max := max (gpu_inc_max st2) (GB g - gpu_0 s)\<rparr>
                               | None \<Rightarrow> st2)
                         else st2)
              in Continue st3)))"

fun monitor_loop :: "(rat \<Rightarrow> string) \<Rightarrow> snapshot \<Rightarrow> tick list \<Rightarrow> mon_state \<Rightarrow> step" where
  "monitor_loop fmt s [] st = Break st"
| "monitor_loop fmt s (t # ts) st =
     (case monitor_tick fmt s t st of
        Continue st' \<Rightarrow> monitor_loop fmt s ts st'
      | Break st' \<Rightarrow> Break st'
      | Raise st' e \<Rightarrow> Raise st' e)"

text \<open>The locals before the loop, and the cells of a state.\<close>

definition init_mon_state :: "cells \<Rightarrow> mon_state" where
  "init_mon_state c =
     \<lparr>success_flag = success_flag c, comment_queue = comment_queue c,
      memory_stats = memory_stats c,
      ram_inc_max = 0, swap_inc_max = 0, gpu_inc_max = 0, mon_trace = []\<rparr>"

definition cells_of :: "mon_state \<Rightarrow> cells" where
  "cells_of st =
     \<lparr>success_flag = success_flag st, comment_queue = comment_queue st,
      memory_stats = memory_stats st\<rparr>"

text \<open>
  The whole method: the cells as the thread leaves them, its effects, and the exception
  that ended the thread, if any. An exception leaves \<open>memory_stats\<close> unwritten.
\<close>

definition monitor_memory ::
  "(rat \<Rightarrow> string) \<Rightarrow> snapshot \<Rightarrow> tick list \<Rightarrow> cells \<Rightarrow> cells \<times> event list \<times> exn option" where
  "monitor_memory fmt s ts c =
     (let r = monitor_loop fmt s ts (init_mon_state c);
          st = state_of r
      in case raised r of
           Some e \<Rightarrow> (cells_of st, mon_trace st, Some e)
         | None \<Rightarrow>
             (let tr = mon_trace st @ (if nvml_handle s then [NvmlShutdown] else []);
                  st1 = st\<lparr>memory_stats := (memory_stats st)(''ram'' \<mapsto> ram_inc_max st)\<rparr>;
                  st2 = st1\<lparr>memory_stats := (memory_stats st1)(''swap'' \<mapsto> swap_inc_max st)\<rparr>;
                  st3 = st2\<lparr>memory_stats := (memory_stats st2)(''gpu'' \<mapsto> gpu_inc_max st)\<rparr>
              in (cells_of st3, tr, None)))"

subsection \<open>execute\<close>

datatype comm = Returned int | TimeoutExpired

text \<open>
  What one run meets: the outcomes of \<^verbatim>\<open>open\<close>, of \<^verbatim>\<open>subprocess.Popen\<close> and of
  \<^verbatim>\<open>process.communicate\<close> (the return code of the child, or the timeout), the answers
  to the \<^verbatim>\<open>kill_process\<close> of the timeout branch, what the monitor thread reads, and
  which paths exist when the log file has been closed.

  The command is spawned with \<^verbatim>\<open>shell=True\<close>: the child is a shell that is handed the
  command line. So \<open>popen_result\<close> is an exception only when the shell itself cannot
  be started. A command line whose executable is missing or may not be executed is
  reported by the shell, which exits with 127 or 126: that is a \<open>communicate_result\<close>.
\<close>

record run_env =
  open_result :: "exn option"
  popen_result :: "exn option"
  communicate_result :: comm
  main_kill :: kill_env
  snap :: snapshot
  ticks :: "tick list"
  fs_after :: "path \<Rightarrow> bool"

text \<open>A peak of the returned dictionary: a number, or the string \<^verbatim>\<open>'N/A'\<close>.\<close>

datatype stat = Num rat | NA

record run_result =
  success :: bool
  comments :: string
  ram :: stat
  swap :: stat
  gpu :: stat

definition timeout_msg :: "nat \<Rightarrow> string" where
  "timeout_msg timeout_seconds = ''Process took too long > '' @ str_nat timeout_seconds @ '' seconds''"

text \<open>
  The \<^verbatim>\<open>try\<close> block around \<^verbatim>\<open>process.communicate\<close>: the local \<^verbatim>\<open>comments\<close>, the
  cells, the effects, and the exception of \<^verbatim>\<open>kill_process\<close>, if any.
\<close>

definition wait_block ::
  "comm \<Rightarrow> kill_env \<Rightarrow> nat \<Rightarrow> string \<Rightarrow> cells \<Rightarrow> string \<times> cells \<times> event list \<times> exn option" where
  "wait_block r k timeout_seconds cmts c =
     (case r of
        Returned code \<Rightarrow> (cmts, c, [], None)
      | TimeoutExpired \<Rightarrow>
          (let tr = [PrintMsg (timeout_msg timeout_seconds) ''error''];
               cmts' = timeout_msg timeout_seconds @ ''. Process killed.'';
               c' = c\<lparr>success_flag := False\<rparr>
           in (cmts', c', tr @ fst (kill_process k), snd (kill_process k))))"

text \<open>\<^verbatim>\<open>while not comment_queue.empty(): comments += comment_queue.get() + "\n"\<close>\<close>

fun drain :: "string \<Rightarrow> string list \<Rightarrow> string" where
  "drain cmts [] = cmts"
| "drain cmts (m # q) = drain (cmts @ m @ [CHR 0x0A]) q"

definition check_artifact :: "bool \<Rightarrow> cells \<Rightarrow> cells" where
  "check_artifact ex c = (if \<not> ex then c\<lparr>success_flag := False\<rparr> else c)"

definition stats_get :: "(string \<rightharpoonup> rat) \<Rightarrow> string \<Rightarrow> stat" where
  "stats_get m k = (case m k of Some v \<Rightarrow> Num v | None \<Rightarrow> NA)"

definition init_cells :: cells where
  "init_cells = \<lparr>success_flag = True, comment_queue = [], memory_stats = Map.empty\<rparr>"

text \<open>
  The method returns the dictionary or raises, and leaves the effects of the calling thread.
  The two threads write the flag concurrently; both only ever store \<^verbatim>\<open>False\<close>, so the
  model lets the monitor start from the cells as the \<^verbatim>\<open>try\<close> block leaves them.
\<close>

definition execute ::
  "(rat \<Rightarrow> string) \<Rightarrow> run_env \<Rightarrow> string \<Rightarrow> nat \<Rightarrow> path \<Rightarrow> nat \<Rightarrow> (exn + run_result) \<times> event list" where
  "execute fmt env command exp_it exp_folder timeout_seconds =
     (let lp = log_file_path exp_folder exp_it in
      case open_result env of
        Some e \<Rightarrow> (Inl e, [OpenLog lp])
      | None \<Rightarrow>
          (case popen_result env of
             Some e \<Rightarrow> (Inl e, [OpenLog lp, PrintLogFile lp, Popen command, CloseLog])
           | None \<Rightarrow>
               (let tr0 = [OpenLog lp, PrintLogFile lp, Popen command, ThreadStart,
                           Communicate timeout_seconds];
                    (cmts1, c1, tr1, x1) =
                       wait_block (communicate_result env) (main_kill env) timeout_seconds [] init_cells
                in case x1 of
                     Some e \<Rightarrow> (Inl e, tr0 @ tr1 @ [CloseLog])
                   | None \<Rightarrow>
                       (let (c2, mtr, mx) = monitor_memory fmt (snap env) (ticks env) c1;
                            cmts2 = drain cmts1 (comment_queue c2);
                            ap = artifact_path exp_folder exp_it;
                            c3 = check_artifact (fs_after env ap) c2;
                            tr2 = tr0 @ tr1 @ [ThreadJoin] @ map QueueGet (comment_queue c2)
                                  @ [CloseLog, PathExists ap, ReadFlag,
                                     StatsGet ''ram'', StatsGet ''swap'', StatsGet ''gpu'']
                        in (Inr \<lparr>success = success_flag c3, comments = cmts2,
                                 ram = stats_get (memory_stats c3) ''ram'',
                                 swap = stats_get (memory_stats c3) ''swap'',
                                 gpu = stats_get (memory_stats c3) ''gpu''\<rparr>, tr2)))))"

subsection \<open>Notions the properties are stated with\<close>

text \<open>A tick whose readings exceed a threshold.\<close>

definition breach :: "snapshot \<Rightarrow> tick \<Rightarrow> bool" where
  "breach s t =
     (case mem t of
        PsRaise \<Rightarrow> False
      | PsOk ru su \<Rightarrow> ram_perc s ru > MAX_RAM_PERC \<or> swap_perc s su > MAX_SWAP_PERC)"

text \<open>
  The ticks before the first exception the loop catches. The loop obtains the readings of
  these ticks up to the first that breaches; \<open>observed\<close> is that part.
\<close>

definition sampled :: "tick list \<Rightarrow> tick list" where
  "sampled ts = takeWhile (\<lambda>t. mem t \<noteq> PsRaise) ts"

fun observed :: "snapshot \<Rightarrow> tick list \<Rightarrow> tick list" where
  "observed s [] = []"
| "observed s (t # ts) =
     (if mem t = PsRaise then [] else if breach s t then [t] else t # observed s ts)"

definition breach_occurred :: "snapshot \<Rightarrow> tick list \<Rightarrow> bool" where
  "breach_occurred s ts = list_ex (breach s) (sampled ts)"

text \<open>The ticks that passed both threshold checks: those before the first breach.\<close>

definition counted :: "snapshot \<Rightarrow> tick list \<Rightarrow> tick list" where
  "counted s ts = takeWhile (\<lambda>t. \<not> breach s t) (sampled ts)"

text \<open>\<^verbatim>\<open>ram_used - ram_0\<close> and \<^verbatim>\<open>swap_used - swap_0\<close> of a tick.\<close>

definition ram_inc :: "snapshot \<Rightarrow> tick \<Rightarrow> rat" where
  "ram_inc s t = (case mem t of PsOk ru su \<Rightarrow> GB ru - GB (ram_used0 s) | PsRaise \<Rightarrow> 0)"

definition swap_inc :: "snapshot \<Rightarrow> tick \<Rightarrow> rat" where
  "swap_inc s t = (case mem t of PsOk ru su \<Rightarrow> GB su - GB (swap_used0 s) | PsRaise \<Rightarrow> 0)"

text \<open>The monitor thread ends without an exception.\<close>

definition monitor_completes :: "snapshot \<Rightarrow> tick list \<Rightarrow> bool" where
  "monitor_completes s ts =
     (case find (breach s) (sampled ts) of
        None \<Rightarrow> True
      | Some t \<Rightarrow> snd (kill_process (kill t)) = None)"

text \<open>The diagnostic the monitor queues: that of the first breach, if there is one.\<close>

definition diagnostics :: "(rat \<Rightarrow> string) \<Rightarrow> snapshot \<Rightarrow> tick list \<Rightarrow> string list" where
  "diagnostics fmt s ts =
     (case find (breach s) (sampled ts) of
        None \<Rightarrow> []
      | Some t \<Rightarrow>
          (case mem t of
             PsRaise \<Rightarrow> []
           | PsOk ru su \<Rightarrow>
               [(if ram_perc s ru > MAX_RAM_PERC then ram_msg fmt s ru else swap_msg fmt s su)
                @ ''. Process killed.'']))"

text \<open>The effects that read what the monitor thread writes.\<close>

fun is_read :: "event \<Rightarrow> bool" where
  "is_read (QueueGet m) = True"
| "is_read ReadFlag = True"
| "is_read (StatsGet k) = True"
| "is_read _ = False"

subsection \<open>Concrete runs\<close>

text \<open>
  A host with 16 GiB of RAM, 2 GiB of it in use, 4 GiB of unused swap and no GPU; the
  answers of the operating system to a \<^verbatim>\<open>kill_process\<close> on a live process
  (\<open>quiet_kill\<close>) and on one that is already gone (\<open>gone_kill\<close>: \<^verbatim>\<open>os.getpgid\<close> raises
  \<^verbatim>\<open>ProcessLookupError\<close>).
\<close>

definition quiet_kill :: kill_env where
  "quiet_kill = \<lparr>sigterm_result = None, wait_result = True, sigkill_result = None\<rparr>"

definition gone_kill :: kill_env where
  "gone_kill =
     \<lparr>sigterm_result = Some ProcessLookupError, wait_result = True, sigkill_result = None\<rparr>"

definition GiB :: nat where
  "GiB = 1024 ^ 3"

definition host :: snapshot where
  "host = \<lparr>nvml_handle = False, swap_used0 = 0, swap_total = 4 * GiB,
           ram_used0 = 2 * GiB, ram_total = 16 * GiB, gpu_used0 = None\<rparr>"

definition calm_tick :: tick where
  "calm_tick = \<lparr>mem = PsOk (3 * GiB) 0, gpu_used = None, kill = quiet_kill\<rparr>"

definition dip_tick :: tick where
  "dip_tick = \<lparr>mem = PsOk (1 * GiB) 0, gpu_used = None, kill = quiet_kill\<rparr>"

definition hot_tick :: tick where
  "hot_tick = \<lparr>mem = PsOk (16 * GiB) 0, gpu_used = None, kill = quiet_kill\<rparr>"

definition swap_tick :: tick where
  "swap_tick = \<lparr>mem = PsOk (3 * GiB) (4 * GiB), gpu_used = None, kill = quiet_kill\<rparr>"

definition fmt_plain :: "rat \<Rightarrow> string" where
  "fmt_plain x = ''?''"

definition clean_env :: run_env where
  "clean_env = \<lparr>open_result = None, popen_result = None, communicate_result = Returned 0,
                main_kill = quiet_kill, snap = host, ticks = [calm_tick],
                fs_after = (\<lambda>p. p = [''exp'', ''00003_KeyFrameTrajectory.csv''])\<rparr>"

definition dip_env :: run_env where
  "dip_env = clean_env\<lparr>ticks := [dip_tick]\<rparr>"

definition hot_env :: run_env where
  "hot_env = clean_env\<lparr>ticks := [calm_tick, hot_tick, calm_tick]\<rparr>"

definition spawn_fail_env :: run_env where
  "spawn_fail_env = clean_env\<lparr>popen_result := Some PermissionError\<rparr>"

definition clean_trace :: "event list" where
  "clean_trace =
     [OpenLog [''exp'', ''system_output_00003.txt''],
      PrintLogFile [''exp'', ''system_output_00003.txt''],
      Popen ''run'', ThreadStart, Communicate 60, ThreadJoin, CloseLog,
      PathExists [''exp'', ''00003_KeyFrameTrajectory.csv''], ReadFlag,
      StatsGet ''ram'', StatsGet ''swap'', StatsGet ''gpu'']"

definition clean_result :: run_result where
  "clean_result = \<lparr>success = True, comments = [], ram = Num 1, swap = Num 0, gpu = Num 0\<rparr>"

definition dip_result :: run_result where
  "dip_result = \<lparr>success = True, comments = [], ram = Num 0, swap = Num 0, gpu = Num 0\<rparr>"

definition hot_message :: string where
  "hot_message = ''RAM threshold exceeded: ?/? GB (> 95%)''"

definition hot_result :: run_result where
  "hot_result =
     \<lparr>success = False, comments = hot_message @ ''. Process killed.'' @ [CHR 0x0A],
      ram = Num 1, swap = Num 0, gpu = Num 0\<rparr>"

definition hot_trace :: "event list" where
  "hot_trace =
     [OpenLog [''exp'', ''system_output_00003.txt''],
      PrintLogFile [''exp'', ''system_output_00003.txt''],
      Popen ''run'', ThreadStart, Communicate 60, ThreadJoin,
      QueueGet (hot_message @ ''. Process killed.''), CloseLog,
      PathExists [''exp'', ''00003_KeyFrameTrajectory.csv''], ReadFlag,
      StatsGet ''ram'', StatsGet ''swap'', StatsGet ''gpu'']"

definition crash_env :: run_env where
  "crash_env = clean_env\<lparr>ticks := [hot_tick\<lparr>kill := gone_kill\<rparr>]\<rparr>"

definition crash_result :: run_result where
  "crash_result =
     \<lparr>success = False, comments = hot_message @ ''. Process killed.'' @ [CHR 0x0A],
      ram = NA, swap = NA, gpu = NA\<rparr>"

text \<open>
  A command whose executable is missing: the shell starts, exits with 127, and no file is
  written.
\<close>

definition missing_exe_env :: run_env where
  "missing_exe_env = clean_env\<lparr>communicate_result := Returned 127, fs_after := (\<lambda>p. False)\<rparr>"

definition missing_exe_result :: run_result where
  "missing_exe_result =
     \<lparr>success = False, comments = [], ram = Num 1, swap = Num 0, gpu = Num 0\<rparr>"

section \<open>Auxiliary facts\<close>

lemma on_breach_flag: "\<not> success_flag (state_of (on_breach msg k st))"
  by (simp add: on_breach_def Let_def split: option.splits)

lemma on_breach_not_continue: "\<not> is_continue (on_breach msg k st)"
  by (simp add: on_breach_def Let_def split: option.splits)

lemma on_breach_raised: "raised (on_breach msg k st) = snd (kill_process k)"
  by (simp add: on_breach_def Let_def split: option.splits)

lemma on_breach_peaks:
  "ram_inc_max (state_of (on_breach msg k st)) = ram_inc_max st"
  "swap_inc_max (state_of (on_breach msg k st)) = swap_inc_max st"
  "gpu_inc_max (state_of (on_breach msg k st)) = gpu_inc_max st"
  "memory_stats (state_of (on_breach msg k st)) = memory_stats st"
  by (simp_all add: on_breach_def Let_def split: option.splits)

lemma on_breach_queue:
  "comment_queue (state_of (on_breach msg k st)) = comment_queue st @ [msg @ ''. Process killed.'']"
  by (simp add: on_breach_def Let_def split: option.splits)

lemma tick_breach:
  "breach s t \<Longrightarrow> \<not> is_continue (monitor_tick fmt s t st) \<and> \<not> success_flag (state_of (monitor_tick fmt s t st))
     \<and> raised (monitor_tick fmt s t st) = snd (kill_process (kill t))
     \<and> ram_inc_max (state_of (monitor_tick fmt s t st)) = ram_inc_max st
     \<and> swap_inc_max (state_of (monitor_tick fmt s t st)) = swap_inc_max st
     \<and> gpu_inc_max (state_of (monitor_tick fmt s t st)) = gpu_inc_max st"
  by (auto simp: breach_def monitor_tick_def on_breach_flag on_breach_not_continue on_breach_raised on_breach_peaks split: psread.splits)

lemma tick_psraise:
  "mem t = PsRaise \<Longrightarrow> monitor_tick fmt s t st = Break st"
  by (simp add: monitor_tick_def)

lemma tick_ok:
  "mem t \<noteq> PsRaise \<Longrightarrow> \<not> breach s t \<Longrightarrow>
     \<exists>st'. monitor_tick fmt s t st = Continue st' \<and> success_flag st' = success_flag st
       \<and> comment_queue st' = comment_queue st \<and> mon_trace st' = mon_trace st
       \<and> memory_stats st' = memory_stats st
       \<and> ram_inc_max st' = max (ram_inc_max st) (ram_inc s t)
       \<and> swap_inc_max st' = max (swap_inc_max st) (swap_inc s t)"
  by (auto simp: breach_def monitor_tick_def Let_def ram_inc_def swap_inc_def split: psread.splits option.splits)

lemma loop_flag:
  "success_flag (state_of (monitor_loop fmt s ts st)) = (success_flag st \<and> \<not> breach_occurred s ts)"
proof (induction ts arbitrary: st)
  case Nil
  then show ?case by (simp add: breach_occurred_def sampled_def)
next
  case (Cons t ts)
  show ?case
  proof (cases "mem t = PsRaise")
    case True
    then show ?thesis by (simp add: tick_psraise breach_occurred_def sampled_def)
  next
    case ok: False
    show ?thesis
    proof (cases "breach s t")
      case True
      from tick_breach[OF True, of fmt st] ok True show ?thesis
        by (cases "monitor_tick fmt s t st") (auto simp: breach_occurred_def sampled_def)
    next
      case False
      from tick_ok[OF ok False, of fmt st] obtain st' where
        "monitor_tick fmt s t st = Continue st'" "success_flag st' = success_flag st" by blast
      with Cons.IH[of st'] ok False show ?thesis
        by (simp add: breach_occurred_def sampled_def)
    qed
  qed
qed

lemma loop_raised:
  "raised (monitor_loop fmt s ts st) =
     (case find (breach s) (sampled ts) of None \<Rightarrow> None | Some t \<Rightarrow> snd (kill_process (kill t)))"
proof (induction ts arbitrary: st)
  case Nil
  then show ?case by (simp add: sampled_def)
next
  case (Cons t ts)
  show ?case
  proof (cases "mem t = PsRaise")
    case True
    then show ?thesis by (simp add: tick_psraise sampled_def)
  next
    case ok: False
    show ?thesis
    proof (cases "breach s t")
      case True
      from tick_breach[OF True, of fmt st] ok True show ?thesis
        by (cases "monitor_tick fmt s t st") (auto simp: sampled_def)
    next
      case False
      from tick_ok[OF ok False, of fmt st] obtain st' where
        "monitor_tick fmt s t st = Continue st'" by blast
      with Cons.IH[of st'] ok False show ?thesis
        by (simp add: sampled_def)
    qed
  qed
qed

lemma loop_completes: "(raised (monitor_loop fmt s ts st) = None) = monitor_completes s ts"
  by (simp add: loop_raised monitor_completes_def split: option.splits)

lemma loop_no_breach:
  "\<not> breach_occurred s ts \<Longrightarrow>
     comment_queue (state_of (monitor_loop fmt s ts st)) = comment_queue st
     \<and> mon_trace (state_of (monitor_loop fmt s ts st)) = mon_trace st
     \<and> raised (monitor_loop fmt s ts st) = None"
proof (induction ts arbitrary: st)
  case Nil
  then show ?case by simp
next
  case (Cons t ts)
  show ?case
  proof (cases "mem t = PsRaise")
    case True
    then show ?thesis by (simp add: tick_psraise)
  next
    case ok: False
    with Cons.prems have nb: "\<not> breach s t" and rest: "\<not> breach_occurred s ts"
      by (auto simp: breach_occurred_def sampled_def)
    from tick_ok[OF ok nb, of fmt st] obtain st' where
      "monitor_tick fmt s t st = Continue st'" "comment_queue st' = comment_queue st"
      "mon_trace st' = mon_trace st" by blast
    with Cons.IH[OF rest, of st'] show ?thesis by simp
  qed
qed

lemma loop_stats:
  "memory_stats (state_of (monitor_loop fmt s ts st)) = memory_stats st"
proof (induction ts arbitrary: st)
  case Nil
  then show ?case by simp
next
  case (Cons t ts)
  show ?case
  proof (cases "mem t = PsRaise")
    case True
    then show ?thesis by (simp add: tick_psraise)
  next
    case ok: False
    show ?thesis
    proof (cases "breach s t")
      case True
      then have "memory_stats (state_of (monitor_tick fmt s t st)) = memory_stats st"
        by (auto simp: breach_def monitor_tick_def on_breach_peaks split: psread.splits)
      with tick_breach[OF True, of fmt st] show ?thesis
        by (cases "monitor_tick fmt s t st") auto
    next
      case False
      from tick_ok[OF ok False, of fmt st] obtain st' where
        "monitor_tick fmt s t st = Continue st'" "memory_stats st' = memory_stats st" by blast
      with Cons.IH[of st'] show ?thesis by simp
    qed
  qed
qed

lemma loop_peaks:
  "ram_inc_max (state_of (monitor_loop fmt s ts st)) = fold max (map (ram_inc s) (counted s ts)) (ram_inc_max st)
   \<and> swap_inc_max (state_of (monitor_loop fmt s ts st)) = fold max (map (swap_inc s) (counted s ts)) (swap_inc_max st)"
proof (induction ts arbitrary: st)
  case Nil
  then show ?case by (simp add: counted_def sampled_def)
next
  case (Cons t ts)
  show ?case
  proof (cases "mem t = PsRaise")
    case True
    then show ?thesis by (simp add: tick_psraise counted_def sampled_def)
  next
    case ok: False
    show ?thesis
    proof (cases "breach s t")
      case True
      from tick_breach[OF True, of fmt st] ok True show ?thesis
        by (cases "monitor_tick fmt s t st") (auto simp: counted_def sampled_def)
    next
      case False
      from tick_ok[OF ok False, of fmt st] obtain st' where
        "monitor_tick fmt s t st = Continue st'"
        "ram_inc_max st' = max (ram_inc_max st) (ram_inc s t)"
        "swap_inc_max st' = max (swap_inc_max st) (swap_inc s t)" by blast
      with Cons.IH[of st'] ok False show ?thesis
        by (simp add: counted_def sampled_def max.commute)
    qed
  qed
qed

lemma fold_max_Max: "fold max xs (x::rat) = Max (set (x # xs))"
  by (rule Max.set_eq_fold[symmetric])

lemma loop_gpu_no_handle:
  "\<not> nvml_handle s \<Longrightarrow> gpu_inc_max (state_of (monitor_loop fmt s ts st)) = gpu_inc_max st"
proof (induction ts arbitrary: st)
  case Nil
  then show ?case by simp
next
  case (Cons t ts)
  show ?case
  proof (cases "mem t = PsRaise")
    case True
    then show ?thesis by (simp add: tick_psraise)
  next
    case ok: False
    show ?thesis
    proof (cases "breach s t")
      case True
      from tick_breach[OF True, of fmt st] show ?thesis
        by (cases "monitor_tick fmt s t st") auto
    next
      case False
      with ok Cons.prems have "\<exists>st'. monitor_tick fmt s t st = Continue st' \<and> gpu_inc_max st' = gpu_inc_max st"
        by (auto simp: breach_def monitor_tick_def Let_def split: psread.splits)
      then obtain st' where "monitor_tick fmt s t st = Continue st'" "gpu_inc_max st' = gpu_inc_max st"
        by blast
      with Cons.IH[OF Cons.prems, of st'] show ?thesis by simp
    qed
  qed
qed

lemma init_mon_state_simps:
  "success_flag (init_mon_state c) = success_flag c"
  "comment_queue (init_mon_state c) = comment_queue c"
  "memory_stats (init_mon_state c) = memory_stats c"
  "ram_inc_max (init_mon_state c) = 0" "swap_inc_max (init_mon_state c) = 0" "gpu_inc_max (init_mon_state c) = 0"
  "mon_trace (init_mon_state c) = []"
  by (simp_all add: init_mon_state_def)

lemma cells_of_simps:
  "success_flag (cells_of st) = success_flag st"
  "comment_queue (cells_of st) = comment_queue st"
  "memory_stats (cells_of st) = memory_stats st"
  by (simp_all add: cells_of_def)

lemma monitor_memory_unfold:
  "monitor_memory fmt s ts c =
     (let r = monitor_loop fmt s ts (init_mon_state c); st = state_of r
      in case raised r of
           Some e \<Rightarrow> (cells_of st, mon_trace st, Some e)
         | None \<Rightarrow>
             (cells_of (st\<lparr>memory_stats := (memory_stats st)(''ram'' \<mapsto> ram_inc_max st,
                 ''swap'' \<mapsto> swap_inc_max st, ''gpu'' \<mapsto> gpu_inc_max st)\<rparr>),
              mon_trace st @ (if nvml_handle s then [NvmlShutdown] else []), None))"
  by (simp add: monitor_memory_def Let_def split: option.splits)

lemma monitor_memory_flag:
  "success_flag (fst (monitor_memory fmt s ts c)) = (success_flag c \<and> \<not> breach_occurred s ts)"
  by (simp add: monitor_memory_unfold Let_def cells_of_simps loop_flag init_mon_state_simps split: option.splits)

lemma monitor_memory_stats_completes:
  "monitor_completes s ts \<Longrightarrow>
     memory_stats (fst (monitor_memory fmt s ts c)) =
       (memory_stats c)(''ram'' \<mapsto> ram_inc_max (state_of (monitor_loop fmt s ts (init_mon_state c))),
         ''swap'' \<mapsto> swap_inc_max (state_of (monitor_loop fmt s ts (init_mon_state c))),
         ''gpu'' \<mapsto> gpu_inc_max (state_of (monitor_loop fmt s ts (init_mon_state c))))"
  using loop_completes[of fmt s ts "init_mon_state c"]
  by (auto simp add: monitor_memory_unfold Let_def cells_of_simps loop_stats init_mon_state_simps split: option.splits)

lemma monitor_memory_stats_raises:
  "\<not> monitor_completes s ts \<Longrightarrow> memory_stats (fst (monitor_memory fmt s ts c)) = memory_stats c"
  using loop_completes[of fmt s ts "init_mon_state c"]
  by (auto simp add: monitor_memory_unfold Let_def cells_of_simps loop_stats init_mon_state_simps split: option.splits)

lemma monitor_memory_queue_no_breach:
  "\<not> breach_occurred s ts \<Longrightarrow> comment_queue (fst (monitor_memory fmt s ts c)) = comment_queue c"
  using loop_no_breach[of s ts fmt "init_mon_state c"]
  by (auto simp add: monitor_memory_unfold Let_def cells_of_simps init_mon_state_simps split: option.splits)

lemma execute_returns:
  assumes "execute fmt env command exp_it exp_folder timeout_seconds = (Inr r, tr)"
  shows "open_result env = None \<and> popen_result env = None
     \<and> (communicate_result env = TimeoutExpired \<longrightarrow> snd (kill_process (main_kill env)) = None)
     \<and> r = (let c1 = (if communicate_result env = TimeoutExpired then init_cells\<lparr>success_flag := False\<rparr> else init_cells);
                c2 = fst (monitor_memory fmt (snap env) (ticks env) c1);
                c3 = check_artifact (fs_after env (artifact_path exp_folder exp_it)) c2
            in \<lparr>success = success_flag c3,
               comments = drain (if communicate_result env = TimeoutExpired
                                 then timeout_msg timeout_seconds @ ''. Process killed.'' else [])
                            (comment_queue c2),
               ram = stats_get (memory_stats c3) ''ram'',
               swap = stats_get (memory_stats c3) ''swap'',
               gpu = stats_get (memory_stats c3) ''gpu''\<rparr>)"
  using assms
  by (auto simp: execute_def wait_block_def Let_def split: option.splits comm.splits prod.splits)

lemma check_artifact_flag: "success_flag (check_artifact ex c) = (success_flag c \<and> ex)"
  by (simp add: check_artifact_def)

lemma check_artifact_stats: "memory_stats (check_artifact ex c) = memory_stats c"
  by (simp add: check_artifact_def)

lemma execute_returncode_irrelevant:
  "execute fmt (env\<lparr>communicate_result := Returned code\<rparr>) command exp_it exp_folder timeout_seconds
   = execute fmt (env\<lparr>communicate_result := Returned code'\<rparr>) command exp_it exp_folder timeout_seconds"
  by (cases "open_result env"; cases "popen_result env") (simp_all add: execute_def wait_block_def Let_def)

lemma str_nat_3: "str_nat 3 = ''3''"
  by (simp add: str_nat.simps digit_char_def)

lemma zfill_3: "zfill 5 (str_nat 3) = ''00003''"
  unfolding str_nat_3 by (simp add: zfill_def eval_nat_numeral)

lemma artifact_path_3: "artifact_path [''exp''] 3 = [''exp'', ''00003_KeyFrameTrajectory.csv'']"
  by (simp add: artifact_path_def zfill_3 TRAJECTORY_FILE_NAME_def)

lemma GB_GiB: "GB (n * GiB) = of_nat n"
  by (simp add: GB_def GiB_def)

lemma GB_0: "GB 0 = 0"
  by (simp add: GB_def)

lemma calm_tick_no_breach: "\<not> breach host calm_tick"
  by (simp add: breach_def calm_tick_def host_def ram_perc_def swap_perc_def GB_GiB GB_0
      MAX_RAM_PERC_def MAX_SWAP_PERC_def)

lemma clean_env_tick:
  "monitor_tick fmt_plain host calm_tick st = Continue (st\<lparr>ram_inc_max := max (ram_inc_max st) 1, swap_inc_max := max (swap_inc_max st) 0\<rparr>)"
  by (simp add: monitor_tick_def calm_tick_def host_def ram_perc_def swap_perc_def GB_GiB GB_0
      MAX_RAM_PERC_def MAX_SWAP_PERC_def Let_def)

lemma clean_env_execute:
  "execute fmt_plain clean_env ''run'' 3 [''exp''] 60 = (Inr clean_result, clean_trace)"
  by (simp add: execute_def clean_env_def wait_block_def init_cells_def monitor_memory_def
      clean_env_tick init_mon_state_def cells_of_def Let_def artifact_path_3 check_artifact_def
      stats_get_def log_file_path_def zfill_3 clean_result_def clean_trace_def)

lemma tick_breach_queue:
  "breach s t \<Longrightarrow> comment_queue (state_of (monitor_tick fmt s t st)) = comment_queue st @ diagnostics fmt s [t]"
  by (auto simp: breach_def monitor_tick_def on_breach_queue diagnostics_def sampled_def split: psread.splits)

lemma loop_queue:
  "comment_queue (state_of (monitor_loop fmt s ts st)) = comment_queue st @ diagnostics fmt s ts"
proof (induction ts arbitrary: st)
  case Nil
  then show ?case by (simp add: diagnostics_def sampled_def)
next
  case (Cons t ts)
  show ?case
  proof (cases "mem t = PsRaise")
    case True
    then show ?thesis by (simp add: tick_psraise diagnostics_def sampled_def)
  next
    case ok: False
    show ?thesis
    proof (cases "breach s t")
      case True
      have "diagnostics fmt s (t # ts) = diagnostics fmt s [t]"
        using ok True by (simp add: diagnostics_def sampled_def)
      with tick_breach[OF True, of fmt st] tick_breach_queue[OF True, of fmt st] show ?thesis
        by (cases "monitor_tick fmt s t st") auto
    next
      case False
      have d: "diagnostics fmt s (t # ts) = diagnostics fmt s ts"
        using ok False by (simp add: diagnostics_def sampled_def)
      from tick_ok[OF ok False, of fmt st] obtain st' where
        "monitor_tick fmt s t st = Continue st'" "comment_queue st' = comment_queue st" by blast
      with Cons.IH[of st'] d show ?thesis by simp
    qed
  qed
qed

lemma monitor_memory_queue:
  "comment_queue (fst (monitor_memory fmt s ts c)) = comment_queue c @ diagnostics fmt s ts"
  by (simp add: monitor_memory_unfold Let_def cells_of_simps loop_queue init_mon_state_simps split: option.splits)

lemma drain_concat: "drain cmts q = cmts @ concat (map (\<lambda>m. m @ [CHR 0x0A]) q)"
  by (induction q arbitrary: cmts) simp_all

lemma kill_process_no_read: "\<not> list_ex is_read (fst (kill_process k))"
  by (simp add: kill_process_def split: option.splits)

lemma tick_flag_mono: "success_flag (state_of (monitor_tick fmt s t st)) \<longrightarrow> success_flag st"
  by (auto simp: monitor_tick_def on_breach_def Let_def split: psread.splits option.splits)

lemma loop_prefix:
  "\<forall>u\<in>set pre. mem u \<noteq> PsRaise \<and> \<not> breach s u \<Longrightarrow>
     \<exists>st'. monitor_loop fmt s pre st = Break st'
          \<and> monitor_loop fmt s (pre @ ts) st = monitor_loop fmt s ts st'"
proof (induction pre arbitrary: st)
  case Nil
  then show ?case by simp
next
  case (Cons u pre)
  then have ok: "mem u \<noteq> PsRaise" and nb: "\<not> breach s u"
    and rest: "\<forall>u\<in>set pre. mem u \<noteq> PsRaise \<and> \<not> breach s u" by auto
  from tick_ok[OF ok nb, of fmt st] obtain st1 where "monitor_tick fmt s u st = Continue st1"
    by blast
  with Cons.IH[OF rest, of st1] show ?case by simp
qed

lemma counted_prefix:
  "\<forall>u\<in>set pre. mem u \<noteq> PsRaise \<and> \<not> breach s u \<Longrightarrow> counted s pre = pre"
  by (induction pre) (auto simp: counted_def sampled_def)

lemma GB_one: "GB GiB = 1"
  by (simp add: GB_def GiB_def)

lemma tick_fields:
  "mem calm_tick = PsOk (3 * GiB) 0" "mem hot_tick = PsOk (16 * GiB) 0"
  "mem swap_tick = PsOk (3 * GiB) (4 * GiB)" "mem dip_tick = PsOk (1 * GiB) 0"
  "kill hot_tick = quiet_kill" "kill swap_tick = quiet_kill"
  "mem (hot_tick\<lparr>kill := gone_kill\<rparr>) = PsOk (16 * GiB) 0"
  "kill (hot_tick\<lparr>kill := gone_kill\<rparr>) = gone_kill"
  by (simp_all add: calm_tick_def hot_tick_def swap_tick_def dip_tick_def)

lemma dip_tick_no_breach: "\<not> breach host dip_tick"
  by (simp add: breach_def dip_tick_def host_def ram_perc_def swap_perc_def GB_GiB GB_0 GB_one
      MAX_RAM_PERC_def MAX_SWAP_PERC_def)

lemma dip_tick_step:
  "monitor_tick fmt_plain host dip_tick st =
     Continue (st\<lparr>ram_inc_max := max (ram_inc_max st) (- 1), swap_inc_max := max (swap_inc_max st) 0\<rparr>)"
  by (simp add: monitor_tick_def dip_tick_def host_def ram_perc_def swap_perc_def GB_GiB GB_0
      GB_one MAX_RAM_PERC_def MAX_SWAP_PERC_def Let_def)

lemma hot_tick_ratio: "ram_perc host (16 * GiB) = 1"
  by (simp add: ram_perc_def host_def GB_GiB)

lemma calm_tick_ratio: "ram_perc host (3 * GiB) = 3 / 16" "swap_perc host 0 = 0"
  by (simp_all add: ram_perc_def swap_perc_def host_def GB_GiB GB_0)

lemma swap_tick_ratio: "swap_perc host (4 * GiB) = 1"
  by (simp add: swap_perc_def host_def GB_GiB)

lemma hot_tick_breach: "breach host hot_tick" "breach host (hot_tick\<lparr>kill := gone_kill\<rparr>)"
  by (simp_all add: breach_def hot_tick_def hot_tick_ratio MAX_RAM_PERC_def)

lemma hot_ram_msg: "ram_msg fmt_plain host (16 * GiB) = hot_message"
  by (simp add: ram_msg_def fmt_plain_def hot_message_def)

lemma kill_process_quiet:
  "kill_process quiet_kill =
     ([Killpg SIGTERM, WaitProc 5, PrintMsg ''Process killed.'' ''error''], None)"
  by (simp add: kill_process_def quiet_kill_def)

lemma kill_process_gone: "kill_process gone_kill = ([], Some ProcessLookupError)"
  by (simp add: kill_process_def gone_kill_def)

lemma hot_tick_step:
  "monitor_tick fmt_plain host hot_tick st =
     Break (st\<lparr>success_flag := False,
               comment_queue := comment_queue st @ [hot_message @ ''. Process killed.''],
               mon_trace := mon_trace st @ [PrintMsg hot_message ''error'', Killpg SIGTERM,
                              WaitProc 5, PrintMsg ''Process killed.'' ''error'']\<rparr>)"
  by (simp add: monitor_tick_def hot_tick_def hot_tick_ratio MAX_RAM_PERC_def on_breach_def
      hot_ram_msg kill_process_quiet Let_def)

lemma crash_tick_step:
  "monitor_tick fmt_plain host (hot_tick\<lparr>kill := gone_kill\<rparr>) st =
     Raise (st\<lparr>success_flag := False,
               comment_queue := comment_queue st @ [hot_message @ ''. Process killed.''],
               mon_trace := mon_trace st @ [PrintMsg hot_message ''error'']\<rparr>) ProcessLookupError"
  by (simp add: monitor_tick_def hot_tick_def hot_tick_ratio MAX_RAM_PERC_def on_breach_def
      hot_ram_msg kill_process_gone Let_def)

lemma dip_env_execute:
  "execute fmt_plain dip_env ''run'' 3 [''exp''] 60 = (Inr dip_result, clean_trace)"
  by (simp add: execute_def dip_env_def clean_env_def wait_block_def init_cells_def
      monitor_memory_def dip_tick_step init_mon_state_def cells_of_def Let_def artifact_path_3
      check_artifact_def stats_get_def log_file_path_def zfill_3 dip_result_def clean_trace_def)

lemma hot_env_execute:
  "execute fmt_plain hot_env ''run'' 3 [''exp''] 60 = (Inr hot_result, hot_trace)"
  by (simp add: execute_def hot_env_def clean_env_def wait_block_def init_cells_def
      monitor_memory_def clean_env_tick hot_tick_step init_mon_state_def cells_of_def Let_def
      artifact_path_3 check_artifact_def stats_get_def log_file_path_def zfill_3 hot_result_def
      hot_trace_def)

lemma crash_env_execute:
  "execute fmt_plain crash_env ''run'' 3 [''exp''] 60 = (Inr crash_result, hot_trace)"
  by (simp add: execute_def crash_env_def clean_env_def wait_block_def init_cells_def
      monitor_memory_def crash_tick_step init_mon_state_def cells_of_def Let_def
      artifact_path_3 check_artifact_def stats_get_def log_file_path_def zfill_3 crash_result_def
      hot_trace_def)

lemma clean_env_completes: "monitor_completes (snap clean_env) (ticks clean_env)"
  by (simp add: monitor_completes_def sampled_def clean_env_def calm_tick_no_breach tick_fields)

lemma hot_env_completes: "monitor_completes (snap hot_env) (ticks hot_env)"
  using calm_tick_no_breach hot_tick_breach(1)
  by (simp add: monitor_completes_def sampled_def hot_env_def clean_env_def tick_fields
      kill_process_quiet)

lemma crash_env_raises: "\<not> monitor_completes (snap crash_env) (ticks crash_env)"
  using hot_tick_breach(2)
  by (simp add: monitor_completes_def sampled_def crash_env_def clean_env_def tick_fields
      kill_process_gone)

lemma hot_env_breach: "breach_occurred (snap hot_env) (ticks hot_env)"
  using calm_tick_no_breach hot_tick_breach(1)
  by (simp add: breach_occurred_def sampled_def hot_env_def clean_env_def tick_fields)

lemma clean_env_no_breach: "\<not> breach_occurred (snap clean_env) (ticks clean_env)"
  using calm_tick_no_breach
  by (simp add: breach_occurred_def sampled_def clean_env_def tick_fields)

lemma missing_exe_env_execute:
  "execute fmt_plain missing_exe_env ''run'' 3 [''exp''] 60 = (Inr missing_exe_result, clean_trace)"
  by (simp add: execute_def missing_exe_env_def clean_env_def wait_block_def init_cells_def
      monitor_memory_def clean_env_tick init_mon_state_def cells_of_def Let_def artifact_path_3
      check_artifact_def stats_get_def log_file_path_def zfill_3 missing_exe_result_def
      clean_trace_def)

lemma exit_127_execute:
  "execute fmt_plain (clean_env\<lparr>communicate_result := Returned 127\<rparr>) ''run'' 3 [''exp''] 60
     = (Inr clean_result, clean_trace)"
  using execute_returncode_irrelevant[where env = clean_env and code = 127 and code' = 0
      and fmt = fmt_plain and command = "''run''" and exp_it = 3 and exp_folder = "[''exp'']"
      and timeout_seconds = 60] clean_env_execute
  by (simp add: clean_env_def)


section \<open>The properties\<close>

text \<open>
  C1. Whenever \<open>execute\<close> returns a result, its \<open>success\<close> is true exactly when
  \<^verbatim>\<open>process.communicate\<close> did not time out, no sampled tick exceeded the RAM or the swap
  threshold, and the file \<^verbatim>\<open><exp_folder>/<exp_it:05d>_KeyFrameTrajectory.csv\<close> exists
  after the run. The return code of the child has no influence: a run that differs only
  in it returns the same result.
\<close>

theorem execute_success_iff:
  assumes "execute fmt env command exp_it exp_folder timeout_seconds = (Inr r, tr)"
  shows "success r =
           (communicate_result env \<noteq> TimeoutExpired
            \<and> \<not> breach_occurred (snap env) (ticks env)
            \<and> fs_after env (artifact_path exp_folder exp_it))
         \<and> (\<forall>code code'. communicate_result env = Returned code \<longrightarrow>
               fst (execute fmt (env\<lparr>communicate_result := Returned code'\<rparr>)
                      command exp_it exp_folder timeout_seconds) = Inr r)"
proof -
  from execute_returns[OF assms]
  have "success r =
           (communicate_result env \<noteq> TimeoutExpired
            \<and> \<not> breach_occurred (snap env) (ticks env)
            \<and> fs_after env (artifact_path exp_folder exp_it))"
    by (auto simp: Let_def check_artifact_flag monitor_memory_flag init_cells_def)
  moreover have "fst (execute fmt (env\<lparr>communicate_result := Returned code'\<rparr>)
                      command exp_it exp_folder timeout_seconds) = Inr r"
    if "communicate_result env = Returned code" for code code'
  proof -
    have "env\<lparr>communicate_result := Returned code\<rparr> = env" using that by simp
    then have "execute fmt (env\<lparr>communicate_result := Returned code'\<rparr>)
                 command exp_it exp_folder timeout_seconds
               = execute fmt env command exp_it exp_folder timeout_seconds"
      using execute_returncode_irrelevant[where env = env and code = code' and code' = code] by metis
    with assms show ?thesis by simp
  qed
  ultimately show ?thesis by blast
qed

theorem execute_success_iff_witness:
  "execute fmt_plain clean_env ''run'' 3 [''exp''] 60 = (Inr clean_result, clean_trace)
   \<and> success clean_result
   \<and> communicate_result clean_env \<noteq> TimeoutExpired
   \<and> \<not> breach_occurred (snap clean_env) (ticks clean_env)
   \<and> fs_after clean_env [''exp'', ''00003_KeyFrameTrajectory.csv'']
   \<and> fst (execute fmt_plain (clean_env\<lparr>communicate_result := Returned 7\<rparr>) ''run'' 3 [''exp''] 60)
       = Inr clean_result"
proof -
  note w = execute_success_iff[OF clean_env_execute]
  have s: "success clean_result" by (simp add: clean_result_def)
  have c: "communicate_result clean_env = Returned 0" by (simp add: clean_env_def)
  from w s have "communicate_result clean_env \<noteq> TimeoutExpired
      \<and> \<not> breach_occurred (snap clean_env) (ticks clean_env)
      \<and> fs_after clean_env (artifact_path [''exp''] 3)" by blast
  moreover from w c
  have "fst (execute fmt_plain (clean_env\<lparr>communicate_result := Returned 7\<rparr>) ''run'' 3 [''exp''] 60)
       = Inr clean_result" by blast
  ultimately show ?thesis using clean_env_execute s by (simp add: artifact_path_3)
qed

text \<open>
  C2, as the code has it. When the monitor obtained no GPU handle, the \<open>gpu\<close> of the
  returned result is the number 0 if the monitor thread ran to its end; it is the
  sentinel \<^verbatim>\<open>'N/A'\<close> only if an exception ended the monitor thread before it wrote
  its statistics.
\<close>

theorem execute_gpu_without_handle:
  assumes "\<not> nvml_handle (snap env)"
    and "execute fmt env command exp_it exp_folder timeout_seconds = (Inr r, tr)"
  shows "gpu r = (if monitor_completes (snap env) (ticks env) then Num 0 else NA)"
proof (cases "monitor_completes (snap env) (ticks env)")
  case True
  with execute_returns[OF assms(2)] assms(1) show ?thesis
    by (simp add: Let_def check_artifact_stats monitor_memory_stats_completes stats_get_def
        loop_gpu_no_handle init_mon_state_simps)
next
  case False
  with execute_returns[OF assms(2)] show ?thesis
    by (auto simp add: Let_def check_artifact_stats monitor_memory_stats_raises stats_get_def
        init_cells_def)
qed

theorem execute_gpu_without_handle_witness:
  "\<not> nvml_handle (snap clean_env)
   \<and> execute fmt_plain clean_env ''run'' 3 [''exp''] 60 = (Inr clean_result, clean_trace)
   \<and> monitor_completes (snap clean_env) (ticks clean_env)
   \<and> gpu clean_result = Num 0
   \<and> \<not> nvml_handle (snap crash_env)
   \<and> execute fmt_plain crash_env ''run'' 3 [''exp''] 60 = (Inr crash_result, hot_trace)
   \<and> \<not> monitor_completes (snap crash_env) (ticks crash_env)
   \<and> gpu crash_result = NA"
proof -
  have h1: "\<not> nvml_handle (snap clean_env)" by (simp add: clean_env_def host_def)
  have h2: "\<not> nvml_handle (snap crash_env)" by (simp add: crash_env_def clean_env_def host_def)
  from execute_gpu_without_handle[OF h1 clean_env_execute] clean_env_completes
  have g1: "gpu clean_result = Num 0" by simp
  from execute_gpu_without_handle[OF h2 crash_env_execute] crash_env_raises
  have g2: "gpu crash_result = NA" by simp
  from h1 h2 g1 g2 clean_env_execute crash_env_execute clean_env_completes crash_env_raises
  show ?thesis by blast
qed

text \<open>
  C2 as stated fails: on a host without a GPU the run below returns the number 0 as its
  \<open>gpu\<close>, not the sentinel.
\<close>

theorem execute_gpu_sentinel_counterexample:
  "\<not> nvml_handle (snap clean_env)
   \<and> execute fmt_plain clean_env ''run'' 3 [''exp''] 60 = (Inr clean_result, clean_trace)
   \<and> gpu clean_result = Num 0
   \<and> gpu clean_result \<noteq> NA"
  by (simp add: clean_env_execute) (simp add: clean_env_def host_def clean_result_def)

text \<open>
  C3. In an iteration that obtained its readings, the RAM ratio is tested first: above
  0.95 the monitor prints and queues the ``RAM threshold exceeded'' diagnostic, stores
  \<^verbatim>\<open>False\<close> in the flag, calls \<^verbatim>\<open>kill_process\<close> and leaves the loop, whatever the swap
  ratio is. Otherwise, a swap ratio above 0.80 does the same with the ``Swap threshold
  exceeded'' diagnostic. Otherwise the loop goes on, with the flag, the queue and the
  effects unchanged.
\<close>

theorem monitor_tick_thresholds:
  assumes "mem t = PsOk ru su"
  shows "(ram_perc s ru > 95 / 100 \<longrightarrow>
            state_of (monitor_tick fmt s t st) =
              st\<lparr>success_flag := False,
                 comment_queue := comment_queue st @ [ram_msg fmt s ru @ ''. Process killed.''],
                 mon_trace := mon_trace st @ [PrintMsg (ram_msg fmt s ru) ''error'']
                              @ fst (kill_process (kill t))\<rparr>
            \<and> \<not> is_continue (monitor_tick fmt s t st)
            \<and> monitor_loop fmt s (t # ts) st = monitor_tick fmt s t st)
       \<and> (\<not> ram_perc s ru > 95 / 100 \<and> swap_perc s su > 80 / 100 \<longrightarrow>
            state_of (monitor_tick fmt s t st) =
              st\<lparr>success_flag := False,
                 comment_queue := comment_queue st @ [swap_msg fmt s su @ ''. Process killed.''],
                 mon_trace := mon_trace st @ [PrintMsg (swap_msg fmt s su) ''error'']
                              @ fst (kill_process (kill t))\<rparr>
            \<and> \<not> is_continue (monitor_tick fmt s t st)
            \<and> monitor_loop fmt s (t # ts) st = monitor_tick fmt s t st)
       \<and> (\<not> ram_perc s ru > 95 / 100 \<and> \<not> swap_perc s su > 80 / 100 \<longrightarrow>
            is_continue (monitor_tick fmt s t st)
            \<and> success_flag (state_of (monitor_tick fmt s t st)) = success_flag st
            \<and> comment_queue (state_of (monitor_tick fmt s t st)) = comment_queue st
            \<and> mon_trace (state_of (monitor_tick fmt s t st)) = mon_trace st)"
  using assms
  by (auto simp: monitor_tick_def on_breach_def MAX_RAM_PERC_def MAX_SWAP_PERC_def Let_def
      split: option.splits)

theorem monitor_tick_thresholds_witness:
  "mem hot_tick = PsOk (16 * GiB) 0
   \<and> ram_perc host (16 * GiB) > 95 / 100
   \<and> state_of (monitor_tick fmt_plain host hot_tick (init_mon_state init_cells)) =
       (init_mon_state init_cells)
         \<lparr>success_flag := False,
          comment_queue := [''RAM threshold exceeded: ?/? GB (> 95%). Process killed.''],
          mon_trace := [PrintMsg ''RAM threshold exceeded: ?/? GB (> 95%)'' ''error'',
                        Killpg SIGTERM, WaitProc 5, PrintMsg ''Process killed.'' ''error'']\<rparr>
   \<and> monitor_loop fmt_plain host [hot_tick, calm_tick] (init_mon_state init_cells)
       = monitor_tick fmt_plain host hot_tick (init_mon_state init_cells)
   \<and> mem swap_tick = PsOk (3 * GiB) (4 * GiB)
   \<and> \<not> ram_perc host (3 * GiB) > 95 / 100
   \<and> swap_perc host (4 * GiB) > 80 / 100
   \<and> comment_queue (state_of (monitor_tick fmt_plain host swap_tick (init_mon_state init_cells)))
       = [''Swap threshold exceeded: ?/? GB (> 80%). Process killed.'']
   \<and> \<not> is_continue (monitor_tick fmt_plain host swap_tick (init_mon_state init_cells))
   \<and> mem calm_tick = PsOk (3 * GiB) 0
   \<and> \<not> swap_perc host 0 > 80 / 100
   \<and> is_continue (monitor_tick fmt_plain host calm_tick (init_mon_state init_cells))"
proof -
  let ?st = "init_mon_state init_cells"
  have q: "comment_queue ?st = []" "mon_trace ?st = []"
    by (simp_all add: init_mon_state_def init_cells_def)
  have r1: "ram_perc host (16 * GiB) > 95 / 100" by (simp add: hot_tick_ratio)
  have r2: "\<not> ram_perc host (3 * GiB) > 95 / 100" by (simp add: calm_tick_ratio)
  have r3: "swap_perc host (4 * GiB) > 80 / 100" by (simp add: swap_tick_ratio)
  have r4: "\<not> swap_perc host 0 > 80 / 100" by (simp add: calm_tick_ratio)
  have m: "swap_msg fmt_plain host (4 * GiB) = ''Swap threshold exceeded: ?/? GB (> 80%)''"
    by (simp add: swap_msg_def fmt_plain_def)
  from monitor_tick_thresholds[OF tick_fields(2), of host fmt_plain ?st "[calm_tick]"] r1
  have a: "state_of (monitor_tick fmt_plain host hot_tick ?st) =
       ?st\<lparr>success_flag := False,
          comment_queue := [''RAM threshold exceeded: ?/? GB (> 95%). Process killed.''],
          mon_trace := [PrintMsg ''RAM threshold exceeded: ?/? GB (> 95%)'' ''error'',
                        Killpg SIGTERM, WaitProc 5, PrintMsg ''Process killed.'' ''error'']\<rparr>
     \<and> monitor_loop fmt_plain host [hot_tick, calm_tick] ?st = monitor_tick fmt_plain host hot_tick ?st"
    by (simp add: q hot_ram_msg hot_message_def tick_fields kill_process_quiet)
  from monitor_tick_thresholds[OF tick_fields(3), of host fmt_plain ?st "[]"] r2 r3
  have b: "comment_queue (state_of (monitor_tick fmt_plain host swap_tick ?st))
       = [''Swap threshold exceeded: ?/? GB (> 80%). Process killed.'']
     \<and> \<not> is_continue (monitor_tick fmt_plain host swap_tick ?st)"
    by (simp add: q m)
  from monitor_tick_thresholds[OF tick_fields(1), of host fmt_plain ?st "[]"] r2 r4
  have c: "is_continue (monitor_tick fmt_plain host calm_tick ?st)"
    by simp
  from a b c r1 r2 r3 r4 tick_fields(1-3) show ?thesis by blast
qed

text \<open>
  C4, as the code has it. \<open>kill_process\<close> catches only the timeout of its five-second
  wait, after which it sends \<^verbatim>\<open>SIGKILL\<close>. An exception of the process-group lookup or
  of the signal delivery, as for a process that is already gone, leaves the method. The
  method logs the error-level message ``Process killed.'' exactly once when it returns,
  and not at all when it raises.
\<close>

theorem kill_process_outcome:
  "(snd (kill_process k) = None) =
      (sigterm_result k = None \<and> (wait_result k \<or> sigkill_result k = None))
   \<and> count_list (fst (kill_process k)) (PrintMsg ''Process killed.'' ''error'')
       = (if snd (kill_process k) = None then 1 else 0)
   \<and> (\<forall>e. sigterm_result k = Some e \<longrightarrow> kill_process k = ([], Some e))
   \<and> (\<forall>e. sigterm_result k = None \<and> \<not> wait_result k \<and> sigkill_result k = Some e \<longrightarrow>
          kill_process k = ([Killpg SIGTERM, WaitProc 5], Some e))"
  by (auto simp: kill_process_def split: option.splits)

theorem kill_process_outcome_witness:
  "sigterm_result quiet_kill = None \<and> wait_result quiet_kill
   \<and> snd (kill_process quiet_kill) = None
   \<and> count_list (fst (kill_process quiet_kill)) (PrintMsg ''Process killed.'' ''error'') = 1
   \<and> sigterm_result gone_kill = Some ProcessLookupError
   \<and> kill_process gone_kill = ([], Some ProcessLookupError)"
  using kill_process_outcome[of quiet_kill] kill_process_outcome[of gone_kill]
  by (simp add: quiet_kill_def gone_kill_def)

text \<open>
  C4 as stated fails: a first call on a live process returns and logs; a second call, on
  the process that is now gone, raises \<^verbatim>\<open>ProcessLookupError\<close> and logs nothing.
\<close>

theorem kill_process_gone_counterexample:
  "kill_process quiet_kill =
     ([Killpg SIGTERM, WaitProc 5, PrintMsg ''Process killed.'' ''error''], None)
   \<and> kill_process gone_kill = ([], Some ProcessLookupError)"
  by (simp add: kill_process_def quiet_kill_def gone_kill_def)

text \<open>
  C5, as the code has it. The command is spawned through a shell. If
  \<^verbatim>\<open>subprocess.Popen\<close> itself raises, \<open>execute\<close> raises the same exception and returns
  no result: the monitor thread is not started and nothing after the spawn happens but
  the closing of the log file. If it does not raise and the child exits within the
  timeout, whatever its return code, \<open>execute\<close> returns a result, whose \<open>success\<close>
  tells only whether no tick breached and the expected file exists.
\<close>

theorem execute_spawn_outcome:
  assumes "open_result env = None"
  shows "(\<forall>e. popen_result env = Some e \<longrightarrow>
            execute fmt env command exp_it exp_folder timeout_seconds =
              (Inl e, [OpenLog (log_file_path exp_folder exp_it),
                       PrintLogFile (log_file_path exp_folder exp_it), Popen command, CloseLog]))
       \<and> (\<forall>code. popen_result env = None \<and> communicate_result env = Returned code \<longrightarrow>
            (\<exists>r tr. execute fmt env command exp_it exp_folder timeout_seconds = (Inr r, tr)
               \<and> success r = (\<not> breach_occurred (snap env) (ticks env)
                                \<and> fs_after env (artifact_path exp_folder exp_it))))"
proof -
  have a: "execute fmt env command exp_it exp_folder timeout_seconds =
              (Inl e, [OpenLog (log_file_path exp_folder exp_it),
                       PrintLogFile (log_file_path exp_folder exp_it), Popen command, CloseLog])"
    if "popen_result env = Some e" for e
    using assms that by (simp add: execute_def Let_def)
  have b: "\<exists>r tr. execute fmt env command exp_it exp_folder timeout_seconds = (Inr r, tr)
               \<and> success r = (\<not> breach_occurred (snap env) (ticks env)
                                \<and> fs_after env (artifact_path exp_folder exp_it))"
    if p: "popen_result env = None" and c: "communicate_result env = Returned code" for code
  proof -
    obtain x tr where x: "execute fmt env command exp_it exp_folder timeout_seconds = (x, tr)"
      by (cases "execute fmt env command exp_it exp_folder timeout_seconds")
    from x assms p c obtain r where r: "x = Inr r"
      by (auto simp: execute_def wait_block_def Let_def split: prod.splits)
    from x r have ex: "execute fmt env command exp_it exp_folder timeout_seconds = (Inr r, tr)"
      by simp
    from execute_returns[OF ex] c
    have "success r = (\<not> breach_occurred (snap env) (ticks env)
                        \<and> fs_after env (artifact_path exp_folder exp_it))"
      by (auto simp: Let_def check_artifact_flag monitor_memory_flag init_cells_def)
    with ex show ?thesis by blast
  qed
  from a b show ?thesis by blast
qed

theorem execute_spawn_outcome_witness:
  "open_result spawn_fail_env = None
   \<and> popen_result spawn_fail_env = Some PermissionError
   \<and> execute fmt_plain spawn_fail_env ''run'' 3 [''exp''] 60 =
       (Inl PermissionError,
        [OpenLog [''exp'', ''system_output_00003.txt''],
         PrintLogFile [''exp'', ''system_output_00003.txt''], Popen ''run'', CloseLog])
   \<and> open_result missing_exe_env = None
   \<and> popen_result missing_exe_env = None
   \<and> communicate_result missing_exe_env = Returned 127
   \<and> (\<exists>r tr. execute fmt_plain missing_exe_env ''run'' 3 [''exp''] 60 = (Inr r, tr)
          \<and> success r = (\<not> breach_occurred (snap missing_exe_env) (ticks missing_exe_env)
                           \<and> fs_after missing_exe_env (artifact_path [''exp''] 3)))"
proof -
  have h1: "open_result spawn_fail_env = None" by (simp add: spawn_fail_env_def clean_env_def)
  have h2: "popen_result spawn_fail_env = Some PermissionError"
    by (simp add: spawn_fail_env_def)
  have g1: "open_result missing_exe_env = None" and g2: "popen_result missing_exe_env = None"
    and g3: "communicate_result missing_exe_env = Returned 127"
    by (simp_all add: missing_exe_env_def clean_env_def)
  from execute_spawn_outcome[OF h1, where fmt = fmt_plain and command = "''run''"
      and exp_folder = "[''exp'']" and exp_it = 3 and timeout_seconds = 60] h2
  have a: "execute fmt_plain spawn_fail_env ''run'' 3 [''exp''] 60 =
       (Inl PermissionError,
        [OpenLog [''exp'', ''system_output_00003.txt''],
         PrintLogFile [''exp'', ''system_output_00003.txt''], Popen ''run'', CloseLog])"
    by (simp add: log_file_path_def zfill_3)
  from execute_spawn_outcome[OF g1, where fmt = fmt_plain and command = "''run''"
      and exp_folder = "[''exp'']" and exp_it = 3 and timeout_seconds = 60] g2 g3
  have b: "\<exists>r tr. execute fmt_plain missing_exe_env ''run'' 3 [''exp''] 60 = (Inr r, tr)
          \<and> success r = (\<not> breach_occurred (snap missing_exe_env) (ticks missing_exe_env)
                           \<and> fs_after missing_exe_env (artifact_path [''exp''] 3))"
    by blast
  from h1 h2 g1 g2 g3 a b show ?thesis by blast
qed

text \<open>
  C5 as stated fails. For a command whose executable is missing the spawn does not raise:
  the shell exits with 127 and \<open>execute\<close> returns a result, the failure folded into
  its \<open>success\<close>, which is false when the expected file is absent and true when it is
  there.
\<close>

theorem execute_missing_executable_counterexample:
  "popen_result missing_exe_env = None
   \<and> communicate_result missing_exe_env = Returned 127
   \<and> execute fmt_plain missing_exe_env ''run'' 3 [''exp''] 60 = (Inr missing_exe_result, clean_trace)
   \<and> \<not> success missing_exe_result
   \<and> execute fmt_plain (clean_env\<lparr>communicate_result := Returned 127\<rparr>) ''run'' 3 [''exp''] 60
       = (Inr clean_result, clean_trace)
   \<and> success clean_result"
  by (simp add: missing_exe_env_execute exit_127_execute)
     (simp add: missing_exe_env_def clean_env_def missing_exe_result_def clean_result_def)

text \<open>
  C6, as the code has it. When the monitor thread ran to its end, the returned \<open>ram\<close>
  and \<open>swap\<close> are the maximum of 0 and of the differences (current usage minus the
  usage read before the loop) of the ticks that passed both threshold checks; they are
  not negative.
\<close>

theorem execute_peaks_incremental:
  assumes "execute fmt env command exp_it exp_folder timeout_seconds = (Inr r, tr)"
    and "monitor_completes (snap env) (ticks env)"
  shows "ram r = Num (Max (set (0 # map (ram_inc (snap env)) (counted (snap env) (ticks env)))))
       \<and> swap r = Num (Max (set (0 # map (swap_inc (snap env)) (counted (snap env) (ticks env)))))
       \<and> 0 \<le> Max (set (0 # map (ram_inc (snap env)) (counted (snap env) (ticks env))))
       \<and> 0 \<le> Max (set (0 # map (swap_inc (snap env)) (counted (snap env) (ticks env))))"
proof -
  let ?s = "snap env" and ?ts = "ticks env"
  have "ram r = Num (fold max (map (ram_inc ?s) (counted ?s ?ts)) 0)
      \<and> swap r = Num (fold max (map (swap_inc ?s) (counted ?s ?ts)) 0)"
    using execute_returns[OF assms(1)] assms(2)
    by (simp add: Let_def check_artifact_stats monitor_memory_stats_completes stats_get_def
        loop_peaks init_mon_state_simps)
  then have "ram r = Num (Max (set (0 # map (ram_inc ?s) (counted ?s ?ts))))
      \<and> swap r = Num (Max (set (0 # map (swap_inc ?s) (counted ?s ?ts))))"
    by (simp only: fold_max_Max)
  moreover have "0 \<le> Max (set (0 # map (ram_inc ?s) (counted ?s ?ts)))"
    by (rule Max_ge) simp_all
  moreover have "0 \<le> Max (set (0 # map (swap_inc ?s) (counted ?s ?ts)))"
    by (rule Max_ge) simp_all
  ultimately show ?thesis by blast
qed

theorem execute_peaks_incremental_witness:
  "execute fmt_plain hot_env ''run'' 3 [''exp''] 60 = (Inr hot_result, hot_trace)
   \<and> monitor_completes (snap hot_env) (ticks hot_env)
   \<and> ram hot_result = Num (Max (set (0 # map (ram_inc (snap hot_env)) (counted (snap hot_env) (ticks hot_env)))))
   \<and> swap hot_result = Num (Max (set (0 # map (swap_inc (snap hot_env)) (counted (snap hot_env) (ticks hot_env)))))
   \<and> ram hot_result = Num 1"
  using execute_peaks_incremental[OF hot_env_execute hot_env_completes] hot_env_execute
    hot_env_completes
  by (simp add: hot_result_def)

text \<open>
  C6 as stated fails. When the usage of the host falls below its initial level, the
  largest observed difference is negative and the returned peak is 0. When a tick
  breaches, its difference (here 14) is the largest observed and the returned peak is that
  of the earlier ticks (here 1).
\<close>

theorem execute_ram_peak_counterexample:
  "execute fmt_plain dip_env ''run'' 3 [''exp''] 60 = (Inr dip_result, clean_trace)
   \<and> ram dip_result = Num 0
   \<and> Max (set (map (ram_inc (snap dip_env)) (observed (snap dip_env) (ticks dip_env)))) = - 1
   \<and> execute fmt_plain hot_env ''run'' 3 [''exp''] 60 = (Inr hot_result, hot_trace)
   \<and> ram hot_result = Num 1
   \<and> Max (set (map (ram_inc (snap hot_env)) (observed (snap hot_env) (ticks hot_env)))) = 14"
proof -
  have d: "map (ram_inc host) (observed host [dip_tick]) = [- 1]"
    using dip_tick_no_breach
    by (simp add: ram_inc_def tick_fields host_def GB_GiB GB_one)
  have h: "map (ram_inc host) (observed host [calm_tick, hot_tick, calm_tick]) = [1, 14]"
    using calm_tick_no_breach hot_tick_breach(1)
    by (simp add: ram_inc_def tick_fields host_def GB_GiB)
  have "ram dip_result = Num 0" "ram hot_result = Num 1"
    by (simp_all add: dip_result_def hot_result_def)
  with d h dip_env_execute hot_env_execute show ?thesis
    by (simp add: dip_env_def hot_env_def clean_env_def)
qed

text \<open>
  C7. In the effects of a returning \<open>execute\<close>, no read of the queue, of the flag or
  of the statistics precedes the join of the monitor thread; after it the queue, which
  holds what the monitor put into it, is read in the order of emission, then the flag
  and the three statistics. The returned
  \<open>comments\<close> are the text of the timeout branch, if it ran, followed by each queued
  diagnostic in that order, each followed by a newline.
\<close>

theorem execute_join_before_reads:
  assumes "execute fmt env command exp_it exp_folder timeout_seconds = (Inr r, tr)"
  shows "\<exists>pre post.
           tr = pre @ ThreadJoin # post
           \<and> \<not> list_ex is_read pre
           \<and> comment_queue (fst (monitor_memory fmt (snap env) (ticks env) init_cells))
               = diagnostics fmt (snap env) (ticks env)
           \<and> filter is_read post =
               map QueueGet (diagnostics fmt (snap env) (ticks env))
               @ [ReadFlag, StatsGet ''ram'', StatsGet ''swap'', StatsGet ''gpu'']
           \<and> comments r =
               (if communicate_result env = TimeoutExpired
                then timeout_msg timeout_seconds @ ''. Process killed.'' else [])
               @ concat (map (\<lambda>m. m @ [CHR 0x0A]) (diagnostics fmt (snap env) (ticks env)))"
proof -
  let ?lp = "log_file_path exp_folder exp_it"
  let ?tr0 = "[OpenLog ?lp, PrintLogFile ?lp, Popen command, ThreadStart, Communicate timeout_seconds]"
  let ?tr1 = "(if communicate_result env = TimeoutExpired
               then PrintMsg (timeout_msg timeout_seconds) ''error'' # fst (kill_process (main_kill env))
               else [])"
  let ?q = "diagnostics fmt (snap env) (ticks env)"
  let ?post = "map QueueGet ?q @ [CloseLog, PathExists (artifact_path exp_folder exp_it), ReadFlag,
                 StatsGet ''ram'', StatsGet ''swap'', StatsGet ''gpu'']"
  have tr: "tr = (?tr0 @ ?tr1) @ ThreadJoin # ?post"
    using assms
    by (auto simp: execute_def wait_block_def Let_def monitor_memory_queue init_cells_def
        split: option.splits comm.splits prod.splits dest!: arg_cong[where f = fst])
  have pre: "\<not> list_ex is_read (?tr0 @ ?tr1)"
    using kill_process_no_read[of "main_kill env"] by simp
  have post: "filter is_read ?post = map QueueGet ?q @ [ReadFlag, StatsGet ''ram'', StatsGet ''swap'', StatsGet ''gpu'']"
    by (simp add: filter_map comp_def)
  have cm: "comments r =
               (if communicate_result env = TimeoutExpired
                then timeout_msg timeout_seconds @ ''. Process killed.'' else [])
               @ concat (map (\<lambda>m. m @ [CHR 0x0A]) ?q)"
    using execute_returns[OF assms]
    by (simp add: Let_def drain_concat monitor_memory_queue init_cells_def)
  have mq: "comment_queue (fst (monitor_memory fmt (snap env) (ticks env) init_cells))
               = diagnostics fmt (snap env) (ticks env)"
    by (simp add: monitor_memory_queue init_cells_def)
  from tr pre post cm mq show ?thesis by blast
qed

theorem execute_join_before_reads_witness:
  "execute fmt_plain hot_env ''run'' 3 [''exp''] 60 = (Inr hot_result, hot_trace)
   \<and> (\<exists>pre post.
           hot_trace = pre @ ThreadJoin # post
           \<and> \<not> list_ex is_read pre
           \<and> comment_queue (fst (monitor_memory fmt_plain (snap hot_env) (ticks hot_env) init_cells))
               = diagnostics fmt_plain (snap hot_env) (ticks hot_env)
           \<and> filter is_read post =
               map QueueGet (diagnostics fmt_plain (snap hot_env) (ticks hot_env))
               @ [ReadFlag, StatsGet ''ram'', StatsGet ''swap'', StatsGet ''gpu'']
           \<and> comments hot_result =
               (if communicate_result hot_env = TimeoutExpired
                then timeout_msg 60 @ ''. Process killed.'' else [])
               @ concat (map (\<lambda>m. m @ [CHR 0x0A]) (diagnostics fmt_plain (snap hot_env) (ticks hot_env))))"
  using execute_join_before_reads[OF hot_env_execute] hot_env_execute by blast

text \<open>
  C8. If the log file opens, the child is spawned and exits within the timeout, no
  sampled tick exceeds a threshold and the expected file exists, then \<open>execute\<close>
  returns a result with \<open>success\<close> true and empty \<open>comments\<close>.
\<close>

theorem execute_clean_run:
  assumes "open_result env = None" and "popen_result env = None"
    and "communicate_result env = Returned code"
    and "\<not> breach_occurred (snap env) (ticks env)"
    and "fs_after env (artifact_path exp_folder exp_it)"
  shows "\<exists>r tr. execute fmt env command exp_it exp_folder timeout_seconds = (Inr r, tr)
           \<and> success r \<and> comments r = []"
proof -
  obtain x tr where x: "execute fmt env command exp_it exp_folder timeout_seconds = (x, tr)"
    by (cases "execute fmt env command exp_it exp_folder timeout_seconds")
  from x assms(1-3) obtain r where r: "x = Inr r"
    by (auto simp: execute_def wait_block_def Let_def split: prod.splits)
  from x r have ex: "execute fmt env command exp_it exp_folder timeout_seconds = (Inr r, tr)"
    by simp
  from execute_returns[OF ex] assms(3-5) have "success r \<and> comments r = []"
    by (simp add: Let_def check_artifact_flag monitor_memory_flag monitor_memory_queue_no_breach
        init_cells_def)
  with ex show ?thesis by blast
qed

theorem execute_clean_run_witness:
  "open_result clean_env = None \<and> popen_result clean_env = None
   \<and> communicate_result clean_env = Returned 0
   \<and> \<not> breach_occurred (snap clean_env) (ticks clean_env)
   \<and> fs_after clean_env (artifact_path [''exp''] 3)
   \<and> (\<exists>r tr. execute fmt_plain clean_env ''run'' 3 [''exp''] 60 = (Inr r, tr)
           \<and> success r \<and> comments r = [])"
proof -
  have h1: "open_result clean_env = None" and h2: "popen_result clean_env = None"
    and h3: "communicate_result clean_env = Returned 0"
    by (simp_all add: clean_env_def)
  have h5: "fs_after clean_env (artifact_path [''exp''] 3)"
    by (simp add: clean_env_def artifact_path_3)
  from execute_clean_run[OF h1 h2 h3 clean_env_no_breach h5] h1 h2 h3 h5 clean_env_no_breach
  show ?thesis by blast
qed

text \<open>
  C9. The flag starts as true, and no step lowers and then raises it: after an iteration
  of the monitor, after its loop, after the whole monitor, after the \<^verbatim>\<open>try\<close> block of
  \<open>execute\<close> and after the check of the expected file, the flag is true only if it was
  true before. So a returning run with a timeout, a breach or a missing file has
  \<open>success\<close> false.
\<close>

theorem success_flag_monotone:
  "success_flag init_cells
   \<and> (success_flag (state_of (monitor_tick fmt s t st)) \<longrightarrow> success_flag st)
   \<and> (success_flag (state_of (monitor_loop fmt s ts st)) \<longrightarrow> success_flag st)
   \<and> (success_flag (fst (monitor_memory fmt s ts c)) \<longrightarrow> success_flag c)
   \<and> (success_flag (fst (snd (wait_block cr k timeout_seconds cmts c))) \<longrightarrow> success_flag c)
   \<and> (success_flag (check_artifact ex c) \<longrightarrow> success_flag c)
   \<and> (execute fmt env command exp_it exp_folder timeout_seconds = (Inr r, tr)
        \<and> (communicate_result env = TimeoutExpired
            \<or> breach_occurred (snap env) (ticks env)
            \<or> \<not> fs_after env (artifact_path exp_folder exp_it))
        \<longrightarrow> \<not> success r)"
proof -
  have 1: "success_flag init_cells" by (simp add: init_cells_def)
  have 5: "success_flag (fst (snd (wait_block cr k timeout_seconds cmts c))) \<longrightarrow> success_flag c"
    by (simp add: wait_block_def Let_def split: comm.splits)
  have 7: "execute fmt env command exp_it exp_folder timeout_seconds = (Inr r, tr)
        \<and> (communicate_result env = TimeoutExpired
            \<or> breach_occurred (snap env) (ticks env)
            \<or> \<not> fs_after env (artifact_path exp_folder exp_it))
        \<longrightarrow> \<not> success r"
  proof
    assume a: "execute fmt env command exp_it exp_folder timeout_seconds = (Inr r, tr)
        \<and> (communicate_result env = TimeoutExpired
            \<or> breach_occurred (snap env) (ticks env)
            \<or> \<not> fs_after env (artifact_path exp_folder exp_it))"
    then have ex: "execute fmt env command exp_it exp_folder timeout_seconds = (Inr r, tr)" by simp
    from execute_returns[OF ex] a show "\<not> success r"
      by (auto simp: Let_def check_artifact_flag monitor_memory_flag init_cells_def)
  qed
  from 1 5 7 tick_flag_mono[of fmt s t st] show ?thesis
    by (simp add: loop_flag monitor_memory_flag check_artifact_flag)
qed

theorem success_flag_monotone_witness:
  "success_flag init_cells
   \<and> success_flag (state_of (monitor_tick fmt_plain host calm_tick (init_mon_state init_cells)))
   \<and> success_flag (init_mon_state init_cells)
   \<and> execute fmt_plain hot_env ''run'' 3 [''exp''] 60 = (Inr hot_result, hot_trace)
   \<and> breach_occurred (snap hot_env) (ticks hot_env)
   \<and> \<not> success hot_result"
proof -
  note w = success_flag_monotone[where fmt = fmt_plain and s = host and t = calm_tick
      and st = "init_mon_state init_cells" and env = hot_env and command = "''run''"
      and exp_it = 3 and exp_folder = "[''exp'']" and timeout_seconds = 60
      and r = hot_result and tr = hot_trace]
  have a: "success_flag (state_of (monitor_tick fmt_plain host calm_tick (init_mon_state init_cells)))"
    by (simp add: clean_env_tick init_mon_state_def init_cells_def)
  from w a have b: "success_flag (init_mon_state init_cells)" by blast
  from w hot_env_execute hot_env_breach have c: "\<not> success hot_result" by blast
  from w a b c hot_env_execute hot_env_breach show ?thesis by blast
qed

text \<open>
  C10. When the ticks before a breaching tick all passed the threshold checks, the
  running maxima at the end of the loop are those after the earlier ticks: the readings
  of the breaching tick, and every later tick, do not enter them.
\<close>

theorem breach_sample_not_in_peaks:
  assumes "\<forall>u\<in>set pre. mem u \<noteq> PsRaise \<and> \<not> breach s u" and "breach s t"
  shows "ram_inc_max (state_of (monitor_loop fmt s (pre @ t # rest) st))
           = ram_inc_max (state_of (monitor_loop fmt s pre st))
       \<and> swap_inc_max (state_of (monitor_loop fmt s (pre @ t # rest) st))
           = swap_inc_max (state_of (monitor_loop fmt s pre st))
       \<and> gpu_inc_max (state_of (monitor_loop fmt s (pre @ t # rest) st))
           = gpu_inc_max (state_of (monitor_loop fmt s pre st))
       \<and> ram_inc_max (state_of (monitor_loop fmt s (pre @ t # rest) st))
           = fold max (map (ram_inc s) pre) (ram_inc_max st)
       \<and> swap_inc_max (state_of (monitor_loop fmt s (pre @ t # rest) st))
           = fold max (map (swap_inc s) pre) (swap_inc_max st)"
proof -
  from loop_prefix[OF assms(1), of fmt st "t # rest"] obtain st' where
    p: "monitor_loop fmt s pre st = Break st'"
    and a: "monitor_loop fmt s (pre @ t # rest) st = monitor_loop fmt s (t # rest) st'" by blast
  have b: "state_of (monitor_loop fmt s (t # rest) st') = state_of (monitor_tick fmt s t st')"
    using tick_breach[OF assms(2), of fmt st'] by (cases "monitor_tick fmt s t st'") auto
  from loop_peaks[of fmt s pre st] counted_prefix[OF assms(1)]
  have c: "ram_inc_max (state_of (monitor_loop fmt s pre st)) = fold max (map (ram_inc s) pre) (ram_inc_max st)"
    "swap_inc_max (state_of (monitor_loop fmt s pre st)) = fold max (map (swap_inc s) pre) (swap_inc_max st)"
    by simp_all
  from tick_breach[OF assms(2), of fmt st'] a b p c show ?thesis by simp
qed

theorem breach_sample_not_in_peaks_witness:
  "mem calm_tick \<noteq> PsRaise \<and> \<not> breach host calm_tick \<and> breach host hot_tick
   \<and> ram_inc host hot_tick = 14
   \<and> ram_inc_max (state_of (monitor_loop fmt_plain host ([calm_tick] @ hot_tick # [calm_tick])
                               (init_mon_state init_cells))) = 1
   \<and> swap_inc_max (state_of (monitor_loop fmt_plain host ([calm_tick] @ hot_tick # [calm_tick])
                               (init_mon_state init_cells))) = 0"
proof -
  have h1: "\<forall>u\<in>set [calm_tick]. mem u \<noteq> PsRaise \<and> \<not> breach host u"
    using calm_tick_no_breach by (simp add: tick_fields)
  have i: "ram_inc host calm_tick = 1" "swap_inc host calm_tick = 0" "ram_inc host hot_tick = 14"
    by (simp_all add: ram_inc_def swap_inc_def tick_fields host_def GB_GiB GB_0)
  from breach_sample_not_in_peaks[OF h1 hot_tick_breach(1), of fmt_plain "[calm_tick]"
      "init_mon_state init_cells"] i h1 hot_tick_breach(1)
  show ?thesis by (simp add: init_mon_state_def)
qed

end
